theory Spec2Isabelle
  imports Main "HOL-Library.Multiset"
begin

section \<open>Python values used by \<open>backend/contacts/tasks.py\<close>\<close>

text \<open>
  Text is a list of characters; a character stands for a code point below 256, which is
  where \<open>str.strip\<close> and \<open>str.lower\<close> are written out below. A text value that may be
  Python's \<open>None\<close> is a \<open>string option\<close>.
\<close>

type_synonym pystr = "string option"

datatype pyval = PyStr string | PyInt int | PyBool bool | PyList "string list"

text \<open>A result dictionary of a task: its keys and their values.\<close>

type_synonym pydict = "string \<rightharpoonup> pyval"

datatype exn =
    UserDoesNotExist
  | ContactDoesNotExist
  | BookingDoesNotExist
  | MultipleObjectsReturned
  | NameError string
  | AttributeError string
  | DatabaseError string

text \<open>\<open>str(e)\<close>: the message of an exception.\<close>

fun str_exn :: "exn \<Rightarrow> string" where
  "str_exn UserDoesNotExist = ''User matching query does not exist.''"
| "str_exn ContactDoesNotExist = ''Contact matching query does not exist.''"
| "str_exn BookingDoesNotExist = ''Booking matching query does not exist.''"
| "str_exn MultipleObjectsReturned = ''get() returned more than one Contact''"
| "str_exn (NameError v) = ''name '' @ [CHR 0x27] @ v @ [CHR 0x27] @ '' is not defined''"
| "str_exn (AttributeError m) = m"
| "str_exn (DatabaseError m) = m"

text \<open>\<open>str(n)\<close> for a non-negative integer, as the f-strings print counts and ids.\<close>

fun str_nat :: "nat \<Rightarrow> string" where
  "str_nat n =
     (if n < 10 then [char_of (48 + n)]
      else str_nat (n div 10) @ [char_of (48 + n mod 10)])"

declare str_nat.simps [simp del]

text \<open>\<open>str.isspace\<close> on one character: the whitespace code points below 256.\<close>

definition is_space :: "char \<Rightarrow> bool" where
  "is_space c =
     (let n = (of_char c :: nat)
      in (9 \<le> n \<and> n \<le> 13) \<or> (28 \<le> n \<and> n \<le> 32) \<or> n = 133 \<or> n = 160)"

definition strip :: "string \<Rightarrow> string" where
  "strip s = rev (dropWhile is_space (rev (dropWhile is_space s)))"

text \<open>\<open>str.lower\<close> on one character: A to Z and the upper-case letters of Latin-1.\<close>

definition lower_char :: "char \<Rightarrow> char" where
  "lower_char c =
     (let n = (of_char c :: nat)
      in if (65 \<le> n \<and> n \<le> 90) \<or> (192 \<le> n \<and> n \<le> 222 \<and> n \<noteq> 215)
         then char_of (n + 32) else c)"

definition lower :: "string \<Rightarrow> string" where
  "lower s = map lower_char s"

text \<open>\<open>s.split(c)\<close> with a one-character separator: never the empty list.\<close>

fun split_on :: "char \<Rightarrow> string \<Rightarrow> string list" where
  "split_on c [] = [[]]"
| "split_on c (x # xs) =
     (if x = c then [] # split_on c xs
      else (case split_on c xs of
              [] \<Rightarrow> [[x]]
            | w # ws \<Rightarrow> (x # w) # ws))"

text \<open>\<open>s.split(' ', 1)\<close>: at most one split, at the first space.\<close>

definition split_once :: "string \<Rightarrow> string list" where
  "split_once s =
     (if CHR '' '' \<in> set s
      then [takeWhile (\<lambda>c. c \<noteq> CHR '' '') s, tl (dropWhile (\<lambda>c. c \<noteq> CHR '' '') s)]
      else [s])"

text \<open>\<open>xs in ys\<close> on text: \<open>xs\<close> occurs in \<open>ys\<close> as a contiguous piece.\<close>

fun starts_with :: "string \<Rightarrow> string \<Rightarrow> bool" where
  "starts_with [] ys = True"
| "starts_with (x # xs) [] = False"
| "starts_with (x # xs) (y # ys) = (x = y \<and> starts_with xs ys)"

fun contains :: "string \<Rightarrow> string \<Rightarrow> bool" where
  "contains xs [] = (xs = [])"
| "contains xs (y # ys) = (starts_with xs (y # ys) \<or> contains xs ys)"

text \<open>\<open>x or d\<close> on an optional text: \<open>None\<close> and the empty text are both falsy.\<close>

definition or_empty :: "pystr \<Rightarrow> string" where
  "or_empty x = (case x of None \<Rightarrow> [] | Some s \<Rightarrow> s)"

definition truthy :: "pystr \<Rightarrow> bool" where
  "truthy x = (case x of None \<Rightarrow> False | Some s \<Rightarrow> s \<noteq> [])"

section \<open>The data model\<close>

text \<open>
  The model classes (\<open>Contact\<close>, \<open>ContactInteraction\<close>, \<open>Booking\<close>, \<open>User\<close>) are
  imported by \<open>tasks.py\<close> from modules that are not among the sources; the records hold
  the fields that \<open>tasks.py\<close> reads and writes. Timestamps are integers.
\<close>

record contact =
  cid :: nat
  organizer :: nat
  first_name :: pystr
  last_name :: pystr
  email :: string
  phone :: pystr
  company :: pystr
  job_title :: pystr
  c_notes :: pystr
  tags :: "string list"
  total_bookings :: int
  last_booking_date :: "int option"

record interaction =
  iid :: nat
  i_contact :: nat
  i_organizer :: nat
  interaction_type :: string
  description :: string
  i_booking :: "nat option"
  metadata :: "(string \<times> pyval) list"

record booking =
  bid :: nat
  b_organizer :: nat
  invitee_name :: string
  invitee_email :: string
  invitee_phone :: string
  b_status :: string
  start_time :: int
  event_type_name :: string
  event_type_duration :: int

text \<open>The tables, in storage order, and the counters of the auto-increment keys.\<close>

record db =
  users :: "nat list"
  contacts :: "contact list"
  interactions :: "interaction list"
  bookings :: "booking list"
  next_contact_id :: nat
  next_interaction_id :: nat

text \<open>
  The storage is an external collaborator. Its behaviour on the successive write
  operations of a call is a script: \<open>None\<close> lets the write through, \<open>Some m\<close> makes it
  raise a database error with message \<open>m\<close>; past the end of the script every write
  succeeds. A write that raises changes nothing.
\<close>

type_synonym script = "string option list"

fun storage_write :: "script \<Rightarrow> exn option \<times> script" where
  "storage_write [] = (None, [])"
| "storage_write (None # sc) = (None, sc)"
| "storage_write (Some m # sc) = (Some (DatabaseError m), sc)"

text \<open>\<open>Contact.objects.get(id=...)\<close>.\<close>

definition get_contact :: "nat \<Rightarrow> db \<Rightarrow> exn + contact" where
  "get_contact i d =
     (case filter (\<lambda>c. cid c = i) (contacts d) of
        [] \<Rightarrow> Inl ContactDoesNotExist
      | [c] \<Rightarrow> Inr c
      | _ \<Rightarrow> Inl MultipleObjectsReturned)"

text \<open>
  \<open>instance.save()\<close> on a contact: the row with the contact's key is replaced; a key
  that has no row is inserted.
\<close>

definition save_contact :: "contact \<Rightarrow> db \<Rightarrow> db" where
  "save_contact c d =
     d\<lparr>contacts :=
         (if cid c \<in> cid ` set (contacts d)
          then map (\<lambda>x. if cid x = cid c then c else x) (contacts d)
          else contacts d @ [c])\<rparr>"

section \<open>\<open>merge_contact_data\<close>\<close>

text \<open>\<open>list(set(a).union(set(b)))\<close>: the order of the result is not fixed by Python;
  the model keeps the first occurrences in order.\<close>

definition union_tags :: "string list \<Rightarrow> string list \<Rightarrow> string list" where
  "union_tags a b = remdups (a @ b)"

text \<open>Lines 149 to 153: the notes of one duplicate folded into the primary's.\<close>

definition merge_notes :: "contact \<Rightarrow> contact \<Rightarrow> contact" where
  "merge_notes p dup =
     (if truthy (c_notes dup) \<and> \<not> contains (or_empty (c_notes dup)) (or_empty (c_notes p))
      then (if truthy (c_notes p)
            then p\<lparr>c_notes := Some (or_empty (c_notes p) @ [CHR 0x0A, CHR 0x0A]
                     @ ''--- Merged from '' @ email dup @ '' ---'' @ [CHR 0x0A]
                     @ or_empty (c_notes dup))\<rparr>
            else p\<lparr>c_notes := c_notes dup\<rparr>)
      else p)"

text \<open>Lines 135 to 137: the latest date seen so far against one duplicate's.\<close>

definition later_date :: "int option \<Rightarrow> int option \<Rightarrow> int option" where
  "later_date latest dupdate =
     (case dupdate of
        None \<Rightarrow> latest
      | Some t \<Rightarrow> (case latest of
                     None \<Rightarrow> Some t
                   | Some l \<Rightarrow> if t > l then Some t else latest))"

text \<open>Line 140: every interaction of the duplicate is repointed to the primary.\<close>

definition reassign_interactions :: "nat \<Rightarrow> nat \<Rightarrow> db \<Rightarrow> db" where
  "reassign_interactions from_id to_id d =
     d\<lparr>interactions :=
         map (\<lambda>i. if i_contact i = from_id then i\<lparr>i_contact := to_id\<rparr> else i)
           (interactions d)\<rparr>"

text \<open>
  The loop of lines 130 to 153 over the duplicates that resolved. It carries the primary
  held in memory, the running total and the latest date; the database changes at once at
  each reassignment. A write that raises ends the loop with the database as it is then.
\<close>

fun merge_loop ::
  "contact list \<Rightarrow> contact \<Rightarrow> int \<Rightarrow> int option \<Rightarrow> script \<Rightarrow> db
     \<Rightarrow> (exn + contact \<times> int \<times> int option) \<times> script \<times> db" where
  "merge_loop [] p tot latest sc d = (Inr (p, tot, latest), sc, d)"
| "merge_loop (dup # rest) p tot latest sc d =
     (let tot1 = tot + total_bookings dup;
          latest1 = later_date latest (last_booking_date dup)
      in case storage_write sc of
           (Some e, sc1) \<Rightarrow> (Inl e, sc1, d)
         | (None, sc1) \<Rightarrow>
             (let d1 = reassign_interactions (cid dup) (cid p) d;
                  p1 = (if tags dup \<noteq> [] then p\<lparr>tags := union_tags (tags p) (tags dup)\<rparr>
                        else p);
                  p2 = merge_notes p1 dup
              in merge_loop rest p2 tot1 latest1 sc1 d1))"

text \<open>\<open>Contact.objects.filter(id__in=ids)\<close>, and \<open>.delete()\<close> on that query.\<close>

definition duplicates_of :: "nat list \<Rightarrow> db \<Rightarrow> contact list" where
  "duplicates_of ids d = filter (\<lambda>c. cid c \<in> set ids) (contacts d)"

definition delete_contacts :: "nat list \<Rightarrow> db \<Rightarrow> db" where
  "delete_contacts ids d = d\<lparr>contacts := filter (\<lambda>c. cid c \<notin> set ids) (contacts d)\<rparr>"

definition merge_error :: "exn \<Rightarrow> pydict" where
  "merge_error e =
     [''status'' \<mapsto> PyStr ''error'',
      ''message'' \<mapsto> PyStr (''Error merging contacts: '' @ str_exn e)]"

text \<open>
  The task. A missing primary is answered by the handler of line 170, any other
  exception by the handler of line 175; neither undoes a write already made.
\<close>

definition merge_contact_data ::
  "nat \<Rightarrow> nat list \<Rightarrow> script \<Rightarrow> db \<Rightarrow> pydict \<times> script \<times> db" where
  "merge_contact_data primary_contact_id duplicate_contact_ids sc d =
     (case get_contact primary_contact_id d of
        Inl ContactDoesNotExist \<Rightarrow>
          ([''status'' \<mapsto> PyStr ''error'',
            ''message'' \<mapsto> PyStr (''Primary contact '' @ str_nat primary_contact_id @ '' not found'')],
           sc, d)
      | Inl e \<Rightarrow> (merge_error e, sc, d)
      | Inr primary_contact \<Rightarrow>
          (case merge_loop (duplicates_of duplicate_contact_ids d) primary_contact 0
                  (last_booking_date primary_contact) sc d of
             (Inl e, sc1, d1) \<Rightarrow> (merge_error e, sc1, d1)
           | (Inr (p, total_bookings_sum, latest_booking_date), sc1, d1) \<Rightarrow>
               (let p1 = p\<lparr>total_bookings := total_bookings p + total_bookings_sum\<rparr>;
                    p2 = (case latest_booking_date of
                            None \<Rightarrow> p1
                          | Some t \<Rightarrow> p1\<lparr>last_booking_date := Some t\<rparr>)
                in case storage_write sc1 of
                     (Some e, sc2) \<Rightarrow> (merge_error e, sc2, d1)
                   | (None, sc2) \<Rightarrow>
                       (let d2 = save_contact p2 d1
                        in case storage_write sc2 of
                             (Some e, sc3) \<Rightarrow> (merge_error e, sc3, d2)
                           | (None, sc3) \<Rightarrow>
                               ([''status'' \<mapsto> PyStr ''success'',
                                 ''message'' \<mapsto> PyStr (''Merged ''
                                    @ str_nat (length duplicate_contact_ids)
                                    @ '' contacts into '' @ email p2),
                                 ''merged_count'' \<mapsto> PyInt (int (length duplicate_contact_ids))],
                                sc3, delete_contacts duplicate_contact_ids d2)))))"

section \<open>\<open>process_contact_import\<close>\<close>

text \<open>
  A row as \<open>csv.DictReader\<close> yields it: a dictionary from the column names of the header
  to the cells of the line. A column that the header does not have is absent from the
  dictionary; a column that the header has and the line is too short for is present with
  the value \<open>None\<close>. Reading the text into rows is the library's work: the task is
  modelled from the rows on.
\<close>

type_synonym row = "string \<rightharpoonup> pystr"

text \<open>\<open>row.get(key, default)\<close>.\<close>

definition row_get :: "row \<Rightarrow> string \<Rightarrow> pystr \<Rightarrow> pystr" where
  "row_get r k dflt = (case r k of None \<Rightarrow> dflt | Some v \<Rightarrow> v)"

text \<open>
  The name \<open>row_num\<close> is read on lines 31, 37, 86 and 87 and bound nowhere in
  \<open>process_contact_import\<close> or in the module: reading it raises \<open>NameError\<close>.
\<close>

definition row_num :: "exn + nat" where
  "row_num = Inl (NameError ''row_num'')"

record counters =
  created_count :: nat
  updated_count :: nat
  skipped_count :: nat
  errors :: "string list"

text \<open>\<open>[tag.strip() for tag in tags_str.split(',') if tag.strip()]\<close>.\<close>

definition parse_tags :: "string \<Rightarrow> string list" where
  "parse_tags tags_str = filter (\<lambda>t. t \<noteq> []) (map strip (split_on CHR '','' tags_str))"

text \<open>Line 36: the check that the comment on line 35 calls basic email validation.\<close>

definition basic_email_ok :: "string \<Rightarrow> bool" where
  "basic_email_ok e = (CHR ''@'' \<in> set e \<and> CHR ''.'' \<in> set (last (split_on CHR ''@'' e)))"

text \<open>\<open>Contact.objects.filter(organizer=..., email=...).first()\<close>: the match with the
  least key.\<close>

definition find_existing :: "nat \<Rightarrow> string \<Rightarrow> db \<Rightarrow> contact option" where
  "find_existing org e d =
     (case filter (\<lambda>c. organizer c = org \<and> email c = e) (contacts d) of
        [] \<Rightarrow> None
      | x # xs \<Rightarrow> Some (arg_min_list cid (x # xs)))"

text \<open>Lines 50 to 61: the assignments to the contact found, before it is saved.\<close>

definition update_fields :: "row \<Rightarrow> contact \<Rightarrow> contact" where
  "update_fields r existing_contact =
     (let c1 = existing_contact
            \<lparr>first_name := row_get r ''first_name'' (first_name existing_contact),
             last_name := row_get r ''last_name'' (last_name existing_contact),
             phone := row_get r ''phone'' (phone existing_contact),
             company := row_get r ''company'' (company existing_contact),
             job_title := row_get r ''job_title'' (job_title existing_contact),
             c_notes := row_get r ''notes'' (c_notes existing_contact)\<rparr>;
          tags_str = row_get r ''tags'' (Some [])
      in if truthy tags_str then c1\<lparr>tags := parse_tags (or_empty tags_str)\<rparr> else c1)"

text \<open>
  Lines 70 to 83: the contact that \<open>Contact.objects.create\<close> inserts.

  Modelled from the spec: the \<open>Contact\<close> model class is not among the sources; the two
  fields that the call does not pass take the values a new contact has by the data
  model, no bookings and no last booking date, and the key is the next of the table's
  counter.
\<close>

definition new_contact :: "nat \<Rightarrow> string \<Rightarrow> row \<Rightarrow> db \<Rightarrow> contact" where
  "new_contact org e r d =
     (let tags_str = row_get r ''tags'' (Some [])
      in \<lparr>cid = next_contact_id d,
          organizer = org,
          first_name = row_get r ''first_name'' (Some []),
          last_name = row_get r ''last_name'' (Some []),
          email = e,
          phone = row_get r ''phone'' (Some []),
          company = row_get r ''company'' (Some []),
          job_title = row_get r ''job_title'' (Some []),
          c_notes = row_get r ''notes'' (Some []),
          tags = (if truthy tags_str then parse_tags (or_empty tags_str) else []),
          total_bookings = 0,
          last_booking_date = None\<rparr>)"

definition insert_contact :: "contact \<Rightarrow> db \<Rightarrow> db" where
  "insert_contact c d =
     d\<lparr>contacts := contacts d @ [c], next_contact_id := Suc (next_contact_id d)\<rparr>"

text \<open>
  Lines 29 to 84: the body of the inner \<open>try\<close> for one row. The two validation branches
  build their message from \<open>row_num\<close> before they append it, so they raise before the
  list or the counter changes.
\<close>

definition import_row ::
  "nat \<Rightarrow> row \<Rightarrow> bool \<Rightarrow> bool \<Rightarrow> counters \<Rightarrow> script \<Rightarrow> db
     \<Rightarrow> (exn + counters) \<times> script \<times> db" where
  "import_row org r skip_duplicates update_existing cn sc d =
     (case row_get r ''email'' (Some []) of
        None \<Rightarrow>
          (Inl (AttributeError ([CHR 0x27] @ ''NoneType'' @ [CHR 0x27]
                  @ '' object has no attribute '' @ [CHR 0x27] @ ''strip'' @ [CHR 0x27])),
           sc, d)
      | Some raw \<Rightarrow>
          (let e = lower (strip raw)
           in if e = [] then
                (case row_num of
                   Inl x \<Rightarrow> (Inl x, sc, d)
                 | Inr n \<Rightarrow>
                     (Inr (cn\<lparr>errors := errors cn
                                  @ [''Row '' @ str_nat n @ '': Email is required''],
                              skipped_count := skipped_count cn + 1\<rparr>), sc, d))
              else if \<not> basic_email_ok e then
                (case row_num of
                   Inl x \<Rightarrow> (Inl x, sc, d)
                 | Inr n \<Rightarrow>
                     (Inr (cn\<lparr>errors := errors cn
                                  @ [''Row '' @ str_nat n @ '': Invalid email format: '' @ e],
                              skipped_count := skipped_count cn + 1\<rparr>), sc, d))
              else
                (case find_existing org e d of
                   Some existing_contact \<Rightarrow>
                     (if update_existing then
                        (case storage_write sc of
                           (Some x, sc1) \<Rightarrow> (Inl x, sc1, d)
                         | (None, sc1) \<Rightarrow>
                             (Inr (cn\<lparr>updated_count := updated_count cn + 1\<rparr>), sc1,
                              save_contact (update_fields r existing_contact) d))
                      else if skip_duplicates then
                        (Inr (cn\<lparr>skipped_count := skipped_count cn + 1\<rparr>), sc, d)
                      else (Inr cn, sc, d))
                 | None \<Rightarrow>
                     (case storage_write sc of
                        (Some x, sc1) \<Rightarrow> (Inl x, sc1, d)
                      | (None, sc1) \<Rightarrow>
                          (Inr (cn\<lparr>created_count := created_count cn + 1\<rparr>), sc1,
                           insert_contact (new_contact org e r d) d)))))"

text \<open>Lines 85 to 88: the handler of the inner \<open>try\<close>. Its first statement reads
  \<open>row_num\<close>.\<close>

definition row_except :: "exn \<Rightarrow> counters \<Rightarrow> exn + counters" where
  "row_except x cn =
     (case row_num of
        Inl x' \<Rightarrow> Inl x'
      | Inr n \<Rightarrow>
          Inr (cn\<lparr>errors := errors cn @ [''Row '' @ str_nat n @ '': '' @ str_exn x],
                  skipped_count := skipped_count cn + 1\<rparr>))"

text \<open>The \<open>for\<close> loop of line 27. An exception that leaves the handler leaves the loop.\<close>

fun import_loop ::
  "row list \<Rightarrow> nat \<Rightarrow> bool \<Rightarrow> bool \<Rightarrow> counters \<Rightarrow> script \<Rightarrow> db
     \<Rightarrow> (exn + counters) \<times> script \<times> db" where
  "import_loop [] org skip_duplicates update_existing cn sc d = (Inr cn, sc, d)"
| "import_loop (r # rest) org skip_duplicates update_existing cn sc d =
     (case import_row org r skip_duplicates update_existing cn sc d of
        (Inr cn1, sc1, d1) \<Rightarrow> import_loop rest org skip_duplicates update_existing cn1 sc1 d1
      | (Inl x, sc1, d1) \<Rightarrow>
          (case row_except x cn of
             Inl x' \<Rightarrow> (Inl x', sc1, d1)
           | Inr cn1 \<Rightarrow> import_loop rest org skip_duplicates update_existing cn1 sc1 d1))"

text \<open>Lines 90 to 103: the report of a batch that ran to its end.\<close>

definition import_message :: "counters \<Rightarrow> string" where
  "import_message cn =
     ''Import completed: '' @ str_nat (created_count cn) @ '' created, ''
       @ str_nat (updated_count cn) @ '' updated, ''
       @ str_nat (skipped_count cn) @ '' skipped''"

definition import_result :: "counters \<Rightarrow> pydict" where
  "import_result cn =
     (let result =
            [''status'' \<mapsto> PyStr ''success'',
             ''message'' \<mapsto> PyStr (import_message cn),
             ''created_count'' \<mapsto> PyInt (int (created_count cn)),
             ''updated_count'' \<mapsto> PyInt (int (updated_count cn)),
             ''skipped_count'' \<mapsto> PyInt (int (skipped_count cn)),
             ''errors'' \<mapsto> PyList (take 10 (errors cn))]
      in if errors cn \<noteq> [] then
           result(''status'' \<mapsto> PyStr ''partial_success'',
                  ''message'' \<mapsto> PyStr (import_message cn @ '' with ''
                     @ str_nat (length (errors cn)) @ '' errors''))
         else result)"

definition no_counts :: counters where
  "no_counts = \<lparr>created_count = 0, updated_count = 0, skipped_count = 0, errors = []\<rparr>"

text \<open>The task: the organizer is looked up first; the handlers of lines 105 and 110
  answer with a dictionary of two keys.\<close>

definition process_contact_import ::
  "nat \<Rightarrow> row list \<Rightarrow> bool \<Rightarrow> bool \<Rightarrow> script \<Rightarrow> db \<Rightarrow> pydict \<times> script \<times> db" where
  "process_contact_import organizer_id rows skip_duplicates update_existing sc d =
     (if organizer_id \<notin> set (users d) then
        ([''status'' \<mapsto> PyStr ''error'',
          ''message'' \<mapsto> PyStr (''Organizer '' @ str_nat organizer_id @ '' not found'')],
         sc, d)
      else
        (case import_loop rows organizer_id skip_duplicates update_existing no_counts sc d of
           (Inl x, sc1, d1) \<Rightarrow>
             ([''status'' \<mapsto> PyStr ''error'',
               ''message'' \<mapsto> PyStr (''Error importing contacts: '' @ str_exn x)],
              sc1, d1)
         | (Inr cn, sc1, d1) \<Rightarrow> (import_result cn, sc1, d1)))"

section \<open>The booking statistics\<close>

text \<open>\<open>Booking.objects.filter(organizer=..., invitee_email=..., status='confirmed')\<close>.\<close>

definition confirmed_bookings :: "nat \<Rightarrow> string \<Rightarrow> db \<Rightarrow> booking list" where
  "confirmed_bookings org e d =
     filter (\<lambda>b. b_organizer b = org \<and> invitee_email b = e \<and> b_status b = ''confirmed'')
       (bookings d)"

text \<open>\<open>bookings.order_by('-start_time').first()\<close>.\<close>

definition latest_first :: "booking list \<Rightarrow> booking option" where
  "latest_first bs =
     (case sort_key (\<lambda>b. - start_time b) bs of [] \<Rightarrow> None | b # _ \<Rightarrow> Some b)"

definition stats_error :: "exn \<Rightarrow> pydict" where
  "stats_error x =
     [''status'' \<mapsto> PyStr ''error'',
      ''message'' \<mapsto> PyStr (''Error updating contact booking stats: '' @ str_exn x)]"

definition update_single_contact_booking_stats ::
  "nat \<Rightarrow> script \<Rightarrow> db \<Rightarrow> pydict \<times> script \<times> db" where
  "update_single_contact_booking_stats contact_id sc d =
     (case get_contact contact_id d of
        Inl ContactDoesNotExist \<Rightarrow>
          ([''status'' \<mapsto> PyStr ''error'',
            ''message'' \<mapsto> PyStr (''Contact '' @ str_nat contact_id @ '' not found'')], sc, d)
      | Inl x \<Rightarrow> (stats_error x, sc, d)
      | Inr c \<Rightarrow>
          (let bs = confirmed_bookings (organizer c) (email c) d;
               c1 = c\<lparr>total_bookings := int (length bs),
                      last_booking_date :=
                        (case latest_first bs of
                           None \<Rightarrow> None
                         | Some last_booking \<Rightarrow> Some (start_time last_booking))\<rparr>
           in case storage_write sc of
                (Some x, sc1) \<Rightarrow> (stats_error x, sc1, d)
              | (None, sc1) \<Rightarrow>
                  ([''status'' \<mapsto> PyStr ''success'',
                    ''message'' \<mapsto> PyStr (''Updated booking stats for '' @ email c),
                    ''total_bookings'' \<mapsto> PyInt (int (length bs))],
                   sc1, save_contact c1 d)))"

section \<open>\<open>create_contact_from_booking\<close>\<close>

definition get_booking :: "nat \<Rightarrow> db \<Rightarrow> exn + booking" where
  "get_booking i d =
     (case filter (\<lambda>b. bid b = i) (bookings d) of
        [] \<Rightarrow> Inl BookingDoesNotExist
      | [b] \<Rightarrow> Inr b
      | _ \<Rightarrow> Inl MultipleObjectsReturned)"

text \<open>Lines 268 to 273: the display name split at its first space.\<close>

definition parse_name :: "string \<Rightarrow> string \<times> string" where
  "parse_name invitee =
     (if invitee \<noteq> [] then
        (case split_once (strip invitee) of
           a # b # _ \<Rightarrow> (a, b)
         | [a] \<Rightarrow> (a, [])
         | [] \<Rightarrow> ([], []))
      else ([], []))"

text \<open>
  The contact that \<open>get_or_create\<close> inserts when none matches: the key pair and the
  three defaults of lines 280 to 282.

  Modelled from the spec: the \<open>Contact\<close> model class is not among the sources; the fields
  that the call does not pass are empty text, no tags, no bookings and no last booking
  date, as the data model gives a new contact.
\<close>

definition booking_contact :: "booking \<Rightarrow> db \<Rightarrow> contact" where
  "booking_contact b d =
     \<lparr>cid = next_contact_id d,
      organizer = b_organizer b,
      first_name = Some (fst (parse_name (invitee_name b))),
      last_name = Some (snd (parse_name (invitee_name b))),
      email = invitee_email b,
      phone = Some (invitee_phone b),
      company = Some [],
      job_title = Some [],
      c_notes = Some [],
      tags = [],
      total_bookings = 0,
      last_booking_date = None\<rparr>"

text \<open>\<open>Contact.objects.get_or_create(organizer=..., email=..., defaults=...)\<close>: the
  contact and whether it was created; the insertion is a write.\<close>

definition get_or_create ::
  "booking \<Rightarrow> script \<Rightarrow> db \<Rightarrow> (exn + contact \<times> bool) \<times> script \<times> db" where
  "get_or_create b sc d =
     (case filter (\<lambda>c. organizer c = b_organizer b \<and> email c = invitee_email b) (contacts d) of
        [] \<Rightarrow>
          (case storage_write sc of
             (Some x, sc1) \<Rightarrow> (Inl x, sc1, d)
           | (None, sc1) \<Rightarrow>
               (Inr (booking_contact b d, True), sc1, insert_contact (booking_contact b d) d))
      | [c] \<Rightarrow> (Inr (c, False), sc, d)
      | _ \<Rightarrow> (Inl MultipleObjectsReturned, sc, d))"

text \<open>Lines 297 to 308: the interaction record. The two renderings of the start time,
  \<open>strftime\<close> and \<open>isoformat\<close>, are the library's and are parameters here.\<close>

definition booking_interaction ::
  "(int \<Rightarrow> string) \<Rightarrow> (int \<Rightarrow> string) \<Rightarrow> contact \<Rightarrow> booking \<Rightarrow> db \<Rightarrow> interaction" where
  "booking_interaction strftime isoformat c b d =
     \<lparr>iid = next_interaction_id d,
      i_contact = cid c,
      i_organizer = b_organizer b,
      interaction_type = ''booking_created'',
      description = ''Booked '' @ event_type_name b @ '' for '' @ strftime (start_time b),
      i_booking = Some (bid b),
      metadata = [(''event_type'', PyStr (event_type_name b)),
                  (''duration'', PyInt (event_type_duration b)),
                  (''start_time'', PyStr (isoformat (start_time b)))]\<rparr>"

definition insert_interaction :: "interaction \<Rightarrow> db \<Rightarrow> db" where
  "insert_interaction i d =
     d\<lparr>interactions := interactions d @ [i],
       next_interaction_id := Suc (next_interaction_id d)\<rparr>"

definition booking_error :: "exn \<Rightarrow> pydict" where
  "booking_error x =
     [''status'' \<mapsto> PyStr ''error'',
      ''message'' \<mapsto> PyStr (''Error creating contact from booking: '' @ str_exn x)]"

definition create_contact_from_booking ::
  "(int \<Rightarrow> string) \<Rightarrow> (int \<Rightarrow> string) \<Rightarrow> nat \<Rightarrow> script \<Rightarrow> db \<Rightarrow> pydict \<times> script \<times> db" where
  "create_contact_from_booking strftime isoformat booking_id sc d =
     (case get_booking booking_id d of
        Inl BookingDoesNotExist \<Rightarrow>
          ([''status'' \<mapsto> PyStr ''error'',
            ''message'' \<mapsto> PyStr (''Booking '' @ str_nat booking_id @ '' not found'')], sc, d)
      | Inl x \<Rightarrow> (booking_error x, sc, d)
      | Inr b \<Rightarrow>
          (case get_or_create b sc d of
             (Inl x, sc1, d1) \<Rightarrow> (booking_error x, sc1, d1)
           | (Inr (c, created), sc1, d1) \<Rightarrow>
               (let c1 = c\<lparr>total_bookings :=
                             int (length (confirmed_bookings (b_organizer b) (invitee_email b) d1)),
                           last_booking_date := Some (start_time b)\<rparr>
                in case storage_write sc1 of
                     (Some x, sc2) \<Rightarrow> (booking_error x, sc2, d1)
                   | (None, sc2) \<Rightarrow>
                       (let d2 = save_contact c1 d1
                        in case storage_write sc2 of
                             (Some x, sc3) \<Rightarrow> (booking_error x, sc3, d2)
                           | (None, sc3) \<Rightarrow>
                               ([''status'' \<mapsto> PyStr ''success'',
                                 ''message'' \<mapsto> PyStr ((if created then ''Created'' else ''Updated'')
                                    @ '' contact for '' @ invitee_email b),
                                 ''created'' \<mapsto> PyBool created],
                                sc3,
                                insert_interaction
                                  (booking_interaction strftime isoformat c1 b d2) d2)))))"

section \<open>Notions used in the statements\<close>

text \<open>An interaction after the interactions of the contacts \<open>froms\<close> were repointed.\<close>

definition repoint :: "nat set \<Rightarrow> nat \<Rightarrow> interaction \<Rightarrow> interaction" where
  "repoint froms to_id i = (if i_contact i \<in> froms then i\<lparr>i_contact := to_id\<rparr> else i)"

text \<open>The maximum of the dates that are present; none when none is present.\<close>

definition latest_present :: "int option list \<Rightarrow> int option" where
  "latest_present xs =
     (if Option.these (set xs) = {} then None else Some (Max (Option.these (set xs))))"

text \<open>The two aggregates of the primary as stored after a merge during which the
  storage lets every write through.\<close>

definition merged_aggregates :: "nat \<Rightarrow> nat list \<Rightarrow> db \<Rightarrow> (int \<times> int option) option" where
  "merged_aggregates pid ids d =
     (case get_contact pid (snd (snd (merge_contact_data pid ids [] d))) of
        Inr c \<Rightarrow> Some (total_bookings c, last_booking_date c)
      | Inl _ \<Rightarrow> None)"


section \<open>A small address book\<close>

text \<open>Concrete data on which the theorems below are instantiated.\<close>

definition alice :: contact where
  "alice = \<lparr>cid = 1, organizer = 7, first_name = Some ''Alice'', last_name = Some ''Ames'',
     email = ''a@x.com'', phone = Some [], company = Some ''Acme'', job_title = Some [],
     c_notes = Some [], tags = [''vip''], total_bookings = 2, last_booking_date = None\<rparr>"

definition bob :: contact where
  "bob = \<lparr>cid = 2, organizer = 7, first_name = Some ''Bob'', last_name = Some [],
     email = ''b@x.com'', phone = Some [], company = Some [], job_title = Some [],
     c_notes = Some ''met at fair'', tags = [''vip'', ''gold''], total_bookings = 3,
     last_booking_date = Some 50\<rparr>"

definition carol :: contact where
  "carol = \<lparr>cid = 3, organizer = 7, first_name = Some ''Carol'', last_name = Some [],
     email = ''c@x.com'', phone = Some [], company = Some [], job_title = Some [],
     c_notes = Some [], tags = [], total_bookings = 4, last_booking_date = Some 80\<rparr>"

definition call_note :: interaction where
  "call_note = \<lparr>iid = 1, i_contact = 2, i_organizer = 7, interaction_type = ''note'',
     description = ''called'', i_booking = None, metadata = []\<rparr>"

definition booked :: "nat \<Rightarrow> string \<Rightarrow> string \<Rightarrow> int \<Rightarrow> booking" where
  "booked i e st t = \<lparr>bid = i, b_organizer = 7, invitee_name = ''Alice Ames'',
     invitee_email = e, invitee_phone = ''555'', b_status = st, start_time = t,
     event_type_name = ''Intro'', event_type_duration = 30\<rparr>"

definition address_book :: db where
  "address_book = \<lparr>users = [7], contacts = [alice, bob, carol], interactions = [call_note],
     bookings = [booked 1 ''a@x.com'' ''confirmed'' 200,
                 booked 2 ''a@x.com'' ''cancelled'' 100,
                 booked 3 ''Zed@X.COM'' ''confirmed'' 300],
     next_contact_id = 4, next_interaction_id = 2\<rparr>"

section \<open>Facts about the helpers\<close>

lemma lookup_status_error [simp]:
  "merge_error x ''status'' = Some (PyStr ''error'')" "merge_error x ''merged_count'' = None"
  by (simp_all add: merge_error_def)


section \<open>The merged count\<close>

text \<open>
  C4 (as amended). Whenever \<open>merge_contact_data\<close> answers with status \<open>success\<close>, its
  \<open>merged_count\<close> is the number of duplicate ids the caller supplied,
  \<open>len(duplicate_contact_ids)\<close>, whether or not each of them resolved to a contact.
\<close>

theorem merged_count_is_supplied_count:
  "fst (merge_contact_data pid ids sc d) ''status'' = Some (PyStr ''success'')
     \<longrightarrow> fst (merge_contact_data pid ids sc d) ''merged_count'' = Some (PyInt (int (length ids)))"
  by (simp add: merge_contact_data_def Let_def
      split: sum.splits exn.splits prod.splits option.splits)

theorem merged_count_is_supplied_count_witness:
  "fst (merge_contact_data 1 [2] [] address_book) ''status'' = Some (PyStr ''success'')
   \<and> fst (merge_contact_data 1 [2] [] address_book) ''merged_count'' = Some (PyInt 1)"
proof -
  have s: "fst (merge_contact_data 1 [2] [] address_book) ''status'' = Some (PyStr ''success'')"
    by code_simp
  with merged_count_is_supplied_count [of 1 "[2]" "[]" address_book] show ?thesis
    by simp
qed

text \<open>
  C4 as stated fails: with the one duplicate id 99, which resolves to no contact, the
  count of duplicates that resolved is 0 and the task reports \<open>merged_count\<close> 1.
\<close>

theorem merged_count_counterexample:
  "duplicates_of [99] address_book = []
   \<and> fst (merge_contact_data 1 [99] [] address_book) ''merged_count'' = Some (PyInt 1)"
  by code_simp

section \<open>The merge on a database\<close>

lemma get_contact_Inr_filter:
  "get_contact i d = Inr c \<longleftrightarrow> filter (\<lambda>x. cid x = i) (contacts d) = [c]"
  by (auto simp: get_contact_def split: list.splits)

lemma get_contact_Inr_mem:
  assumes "get_contact i d = Inr c"
  shows "c \<in> set (contacts d)" and "cid c = i"
proof -
  from assms have f: "filter (\<lambda>x. cid x = i) (contacts d) = [c]"
    by (simp add: get_contact_Inr_filter)
  then have "c \<in> set (filter (\<lambda>x. cid x = i) (contacts d))" by simp
  then show "c \<in> set (contacts d)" and "cid c = i" by simp_all
qed

lemma get_contact_Inr_unique:
  assumes "get_contact i d = Inr c" and "x \<in> set (contacts d)" and "cid x = i"
  shows "x = c"
proof -
  from assms(1) have f: "filter (\<lambda>x. cid x = i) (contacts d) = [c]"
    by (simp add: get_contact_Inr_filter)
  from assms(2,3) have "x \<in> set (filter (\<lambda>x. cid x = i) (contacts d))" by simp
  with f show ?thesis by simp
qed

lemma filter_key_replace:
  "cid q = k \<Longrightarrow>
     filter (\<lambda>c. cid c = k) (map (\<lambda>x. if cid x = k then q else x) cs)
       = map (\<lambda>_. q) (filter (\<lambda>c. cid c = k) cs)"
  by (induction cs) auto

lemma save_contact_same:
  assumes "get_contact i d = Inr c"
  shows "save_contact c d = d"
proof -
  have "map (\<lambda>x. if cid x = cid c then c else x) (contacts d) = contacts d"
    using get_contact_Inr_unique [OF assms] get_contact_Inr_mem(2) [OF assms]
    by (intro map_idI) auto
  moreover have "cid c \<in> cid ` set (contacts d)"
    using get_contact_Inr_mem(1) [OF assms] by blast
  ultimately show ?thesis by (simp add: save_contact_def)
qed

lemma get_contact_save:
  assumes "get_contact i d = Inr c" and "cid q = i"
  shows "get_contact i (save_contact q d) = Inr q"
proof -
  have m: "cid q \<in> cid ` set (contacts d)"
    using get_contact_Inr_mem [OF assms(1)] assms(2) by force
  from assms(1) have f: "filter (\<lambda>x. cid x = i) (contacts d) = [c]"
    by (simp add: get_contact_Inr_filter)
  have "filter (\<lambda>x. cid x = i) (contacts (save_contact q d)) = [q]"
    using m f filter_key_replace [OF assms(2), of "contacts d"] assms(2)
    by (simp add: save_contact_def)
  then show ?thesis by (simp add: get_contact_Inr_filter)
qed


lemma save_contact_frame [simp]:
  "interactions (save_contact q d) = interactions d"
  "bookings (save_contact q d) = bookings d"
  "users (save_contact q d) = users d"
  by (simp_all add: save_contact_def)

lemma delete_none:
  "duplicates_of ids d = [] \<Longrightarrow> delete_contacts ids d = d"
proof -
  assume "duplicates_of ids d = []"
  then have "\<forall>c \<in> set (contacts d). cid c \<notin> set ids"
    by (auto simp: duplicates_of_def filter_empty_conv)
  then have "filter (\<lambda>c. cid c \<notin> set ids) (contacts d) = contacts d"
    by (simp add: filter_id_conv)
  then show ?thesis by (simp add: delete_contacts_def)
qed

text \<open>The fields of the primary held in memory that the loop leaves alone.\<close>

lemma merge_notes_frame [simp]:
  "cid (merge_notes p dup) = cid p"
  "total_bookings (merge_notes p dup) = total_bookings p"
  "last_booking_date (merge_notes p dup) = last_booking_date p"
  "email (merge_notes p dup) = email p"
  by (simp_all add: merge_notes_def)

text \<open>
  The loop while the storage lets its writes through: one write for each duplicate. The
  running total grows by the duplicates' totals, the latest date is folded over their
  dates, and every interaction of a duplicate points to the primary.
\<close>

lemma merge_loop_ok:
  "\<forall>w \<in> set (take (length ds) sc). w = None \<Longrightarrow>
   \<exists>p'. merge_loop ds p t l sc d =
          (Inr (p', t + sum_list (map total_bookings ds),
                fold (\<lambda>dup a. later_date a (last_booking_date dup)) ds l),
           drop (length ds) sc,
           d\<lparr>interactions := map (repoint (cid ` set ds) (cid p)) (interactions d)\<rparr>)
        \<and> cid p' = cid p \<and> total_bookings p' = total_bookings p
        \<and> last_booking_date p' = last_booking_date p \<and> email p' = email p"
proof (induction ds arbitrary: p t l sc d)
  case Nil
  then show ?case by (simp add: repoint_def)
next
  case (Cons dup rest)
  define p2 where "p2 = merge_notes (if tags dup \<noteq> [] then p\<lparr>tags := union_tags (tags p) (tags dup)\<rparr> else p) dup"
  have p2: "cid p2 = cid p" "total_bookings p2 = total_bookings p"
    "last_booking_date p2 = last_booking_date p" "email p2 = email p"
    by (simp_all add: p2_def)
  obtain sc1 where sw: "storage_write sc = (None, sc1)" and sc1: "sc1 = tl sc"
    using Cons.prems by (cases sc rule: storage_write.cases) auto
  have rest_ok: "\<forall>w \<in> set (take (length rest) sc1). w = None"
    using Cons.prems sc1 by (cases sc) auto
  have dr: "drop (length rest) sc1 = drop (length (dup # rest)) sc"
    using sc1 by (cases sc) auto
  let ?d1 = "reassign_interactions (cid dup) (cid p) d"
  from Cons.IH [OF rest_ok, of p2 "t + total_bookings dup" "later_date l (last_booking_date dup)" ?d1]
  obtain p' where
    IH: "merge_loop rest p2 (t + total_bookings dup) (later_date l (last_booking_date dup)) sc1 ?d1 =
          (Inr (p', t + total_bookings dup + sum_list (map total_bookings rest),
                fold (\<lambda>dup a. later_date a (last_booking_date dup)) rest (later_date l (last_booking_date dup))),
           drop (length rest) sc1,
           ?d1\<lparr>interactions := map (repoint (cid ` set rest) (cid p2)) (interactions ?d1)\<rparr>)"
    and fr: "cid p' = cid p2" "total_bookings p' = total_bookings p2"
      "last_booking_date p' = last_booking_date p2" "email p' = email p2"
    by blast
  have ints: "?d1\<lparr>interactions := map (repoint (cid ` set rest) (cid p2)) (interactions ?d1)\<rparr>
      = d\<lparr>interactions := map (repoint (cid ` set (dup # rest)) (cid p)) (interactions d)\<rparr>"
    by (auto simp: reassign_interactions_def repoint_def p2)
  show ?case
    using IH fr p2 sw dr ints
    by (simp add: Let_def p2_def [symmetric] add.assoc)
qed


lemma finite_these_set [simp]: "finite (Option.these (set xs))"
  by (simp add: Option.these_def)

lemma Max_insert_absorb:
  fixes a :: int
  assumes "finite B" and "b \<in> B" and "a \<le> b"
  shows "Max (insert a B) = Max B"
proof -
  from assms(2) have ne: "B \<noteq> {}" by auto
  have "b \<le> Max B" using assms(1,2) by (rule Max_ge)
  with assms(3) have "a \<le> Max B" by simp
  with assms(1) ne show ?thesis by (simp add: max.absorb2)
qed

lemma latest_present_later:
  "latest_present (later_date l y # zs) = latest_present (l # y # zs)"
proof (cases y)
  case None
  have "insert l (insert None (set zs)) = insert None (insert l (set zs))" by auto
  with None show ?thesis by (simp add: later_date_def latest_present_def)
next
  case (Some t)
  let ?T = "Option.these (set zs)"
  show ?thesis
  proof (cases l)
    case None
    with Some show ?thesis by (simp add: later_date_def latest_present_def)
  next
    case l: (Some a)
    show ?thesis
    proof (cases "a < t")
      case True
      have "Max (insert a (insert t ?T)) = Max (insert t ?T)"
        using True by (intro Max_insert_absorb [of _ t]) simp_all
      with True l Some show ?thesis
        by (simp add: later_date_def latest_present_def del: Max_insert)
    next
      case False
      have "insert a (insert t ?T) = insert t (insert a ?T)" by auto
      moreover have "Max (insert t (insert a ?T)) = Max (insert a ?T)"
        using False by (intro Max_insert_absorb [of _ a]) simp_all
      ultimately show ?thesis
        using False l Some by (simp add: later_date_def latest_present_def del: Max_insert)
    qed
  qed
qed

lemma fold_later_date:
  "fold (\<lambda>dup a. later_date a (last_booking_date dup)) ds l
     = latest_present (l # map last_booking_date ds)"
proof (induction ds arbitrary: l)
  case Nil
  show ?case by (cases l) (simp_all add: latest_present_def)
next
  case (Cons x rest)
  then show ?case by (simp add: latest_present_later)
qed

lemma latest_present_None: "latest_present (l # xs) = None \<Longrightarrow> l = None"
  by (cases l) (auto simp: latest_present_def split: if_splits)

lemma get_contact_delete:
  "pid \<notin> set ids \<Longrightarrow> get_contact pid (delete_contacts ids d) = get_contact pid d"
proof -
  assume "pid \<notin> set ids"
  then have "filter (\<lambda>x. cid x = pid) (filter (\<lambda>c. cid c \<notin> set ids) (contacts d))
      = filter (\<lambda>x. cid x = pid) (contacts d)"
    by (induction "contacts d") (auto intro: filter_cong)
  then show ?thesis by (simp add: get_contact_def delete_contacts_def)
qed

lemma merge_ok_result:
  assumes "get_contact pid d = Inr p"
  shows "\<exists>p2. snd (merge_contact_data pid ids [] d) =
           ([], delete_contacts ids
              (save_contact p2
                 (d\<lparr>interactions :=
                      map (repoint (cid ` set (duplicates_of ids d)) pid) (interactions d)\<rparr>)))
         \<and> fst (merge_contact_data pid ids [] d) ''status'' = Some (PyStr ''success'')
         \<and> cid p2 = pid
         \<and> total_bookings p2
             = total_bookings p + sum_list (map total_bookings (duplicates_of ids d))
         \<and> last_booking_date p2
             = latest_present (last_booking_date p # map last_booking_date (duplicates_of ids d))"
proof -
  let ?ds = "duplicates_of ids d"
  have pk: "cid p = pid" using get_contact_Inr_mem(2) [OF assms] .
  have "\<forall>w \<in> set (take (length ?ds) ([] :: script)). w = None" by simp
  from merge_loop_ok [OF this, of p 0 "last_booking_date p" d]
  obtain p' where
    loop: "merge_loop ?ds p 0 (last_booking_date p) [] d =
            (Inr (p', sum_list (map total_bookings ?ds),
                  latest_present (last_booking_date p # map last_booking_date ?ds)),
             [], d\<lparr>interactions := map (repoint (cid ` set ?ds) pid) (interactions d)\<rparr>)"
    and fr: "cid p' = pid" "total_bookings p' = total_bookings p"
      "last_booking_date p' = last_booking_date p"
    by (auto simp: fold_later_date pk)
  let ?lat = "latest_present (last_booking_date p # map last_booking_date ?ds)"
  let ?p1 = "p'\<lparr>total_bookings := total_bookings p' + sum_list (map total_bookings ?ds)\<rparr>"
  show ?thesis
  proof (cases ?lat)
    case None
    then have "last_booking_date p = None" by (rule latest_present_None)
    with None assms loop fr show ?thesis
      by (intro exI [of _ ?p1]) (simp add: merge_contact_data_def Let_def)
  next
    case (Some t)
    with assms loop fr show ?thesis
      by (intro exI [of _ "?p1\<lparr>last_booking_date := Some t\<rparr>"])
         (simp add: merge_contact_data_def Let_def)
  qed
qed



section \<open>Merging with no duplicate that resolves\<close>

text \<open>
  C10. When the primary resolves and none of the duplicate ids resolves to a contact,
  \<open>merge_contact_data\<close> leaves the database as it was, whatever the storage does: every
  field of the primary keeps its value, no contact is deleted and no interaction is
  repointed. When the storage lets the writes through, the status is \<open>success\<close>.
\<close>

theorem merge_without_duplicates_is_identity:
  assumes "get_contact pid d = Inr p" and "duplicates_of ids d = []"
  shows "snd (snd (merge_contact_data pid ids sc d)) = d
       \<and> fst (merge_contact_data pid ids [] d) ''status'' = Some (PyStr ''success'')"
proof -
  have same: "p\<lparr>last_booking_date := Some t\<rparr> = p" if "last_booking_date p = Some t" for t
    using that by (cases p) simp
  have sv: "save_contact p d = d" using assms(1) by (rule save_contact_same)
  have dl: "delete_contacts ids d = d" using assms(2) by (rule delete_none)
  have "snd (snd (merge_contact_data pid ids sc d)) = d" for sc
    using assms sv dl
    by (simp add: merge_contact_data_def Let_def same split: prod.splits option.splits)
  moreover have "fst (merge_contact_data pid ids [] d) ''status'' = Some (PyStr ''success'')"
    using assms by (simp add: merge_contact_data_def Let_def same split: option.splits)
  ultimately show ?thesis by simp
qed

theorem merge_without_duplicates_is_identity_witness:
  "get_contact 1 address_book = Inr alice \<and> duplicates_of [98, 99] address_book = []
   \<and> snd (snd (merge_contact_data 1 [98, 99] [Some ''storage down''] address_book)) = address_book
   \<and> fst (merge_contact_data 1 [98, 99] [] address_book) ''status'' = Some (PyStr ''success'')"
proof -
  have h1: "get_contact 1 address_book = Inr alice" by code_simp
  have h2: "duplicates_of [98, 99] address_book = []" by code_simp
  from merge_without_duplicates_is_identity [OF h1 h2] h1 h2 show ?thesis by simp
qed

section \<open>The merged aggregates\<close>

lemma merged_aggregates_closed_form:
  assumes "get_contact pid d = Inr p" and "pid \<notin> set ids"
  shows "merged_aggregates pid ids d =
           Some (total_bookings p + sum_list (map total_bookings (duplicates_of ids d)),
                 latest_present (last_booking_date p # map last_booking_date (duplicates_of ids d)))"
proof -
  let ?d1 = "d\<lparr>interactions :=
                 map (repoint (cid ` set (duplicates_of ids d)) pid) (interactions d)\<rparr>"
  from merge_ok_result [OF assms(1), of ids] obtain p2 where
    res: "snd (merge_contact_data pid ids [] d) = ([], delete_contacts ids (save_contact p2 ?d1))"
    and p2: "cid p2 = pid"
      "total_bookings p2 = total_bookings p + sum_list (map total_bookings (duplicates_of ids d))"
      "last_booking_date p2 =
         latest_present (last_booking_date p # map last_booking_date (duplicates_of ids d))"
    by blast
  have "get_contact pid ?d1 = Inr p" using assms(1) by (simp add: get_contact_def)
  then have "get_contact pid (save_contact p2 ?d1) = Inr p2"
    using p2(1) by (rule get_contact_save)
  then have "get_contact pid (delete_contacts ids (save_contact p2 ?d1)) = Inr p2"
    using assms(2) by (simp add: get_contact_delete)
  with res p2 show ?thesis by (simp add: merged_aggregates_def)
qed

text \<open>
  C6. For a primary that resolves and is not among the duplicate ids, and a storage that
  lets the writes through, the primary stored after the merge has as \<open>total_bookings\<close>
  the sum of its own and every resolved duplicate's, and as \<open>last_booking_date\<close> the
  maximum of the dates present among the primary and the resolved duplicates (none when
  none is present). Both depend on the duplicates only as a multiset: any other storage
  order of the contacts gives the same two aggregates.
\<close>

theorem merge_aggregates_order_independent:
  assumes "get_contact pid d = Inr p" and "pid \<notin> set ids"
  shows "merged_aggregates pid ids d =
           Some (total_bookings p + sum_list (map total_bookings (duplicates_of ids d)),
                 latest_present (last_booking_date p # map last_booking_date (duplicates_of ids d)))
       \<and> (\<forall>d2 :: db. mset (contacts d2) = mset (contacts d)
             \<longrightarrow> merged_aggregates pid ids d2 = merged_aggregates pid ids d)"
proof (intro conjI allI impI)
  show "merged_aggregates pid ids d =
           Some (total_bookings p + sum_list (map total_bookings (duplicates_of ids d)),
                 latest_present (last_booking_date p # map last_booking_date (duplicates_of ids d)))"
    using assms by (rule merged_aggregates_closed_form)
next
  fix d2 :: db
  assume perm: "mset (contacts d2) = mset (contacts d)"
  have "mset (filter (\<lambda>x. cid x = pid) (contacts d2)) = mset (filter (\<lambda>x. cid x = pid) (contacts d))"
    by (simp add: perm)
  also have "\<dots> = {#p#}" using assms(1) by (simp add: get_contact_Inr_filter)
  finally have "filter (\<lambda>x. cid x = pid) (contacts d2) = [p]" by (simp only: mset_single_iff)
  then have g2: "get_contact pid d2 = Inr p" by (simp add: get_contact_Inr_filter)
  have dm: "mset (duplicates_of ids d2) = mset (duplicates_of ids d)"
    by (simp add: duplicates_of_def perm)
  have "sum_list (map total_bookings (duplicates_of ids d2))
          = sum_mset (image_mset total_bookings (mset (duplicates_of ids d2)))"
    by (simp flip: sum_mset_sum_list)
  also have "\<dots> = sum_list (map total_bookings (duplicates_of ids d))"
    by (simp add: dm flip: sum_mset_sum_list)
  finally have tot: "sum_list (map total_bookings (duplicates_of ids d2))
          = sum_list (map total_bookings (duplicates_of ids d))" .
  have "set (duplicates_of ids d2) = set (duplicates_of ids d)"
    using dm by (rule mset_eq_setD)
  then have lat: "latest_present (last_booking_date p # map last_booking_date (duplicates_of ids d2))
      = latest_present (last_booking_date p # map last_booking_date (duplicates_of ids d))"
    by (simp add: latest_present_def)
  show "merged_aggregates pid ids d2 = merged_aggregates pid ids d"
    using merged_aggregates_closed_form [OF g2 assms(2)]
      merged_aggregates_closed_form [OF assms] tot lat
    by simp
qed

theorem merge_aggregates_order_independent_witness:
  "get_contact 1 address_book = Inr alice \<and> 1 \<notin> set [2, 3 :: nat]
   \<and> merged_aggregates 1 [2, 3] address_book = Some (9, Some 80)
   \<and> merged_aggregates 1 [2, 3] (address_book\<lparr>contacts := [carol, alice, bob]\<rparr>)
       = Some (9, Some 80)"
proof -
  have h1: "get_contact 1 address_book = Inr alice" by code_simp
  have h2: "1 \<notin> set [2, 3 :: nat]" by simp
  have ds: "duplicates_of [2, 3] address_book = [bob, carol]" by code_simp
  have perm: "mset (contacts (address_book\<lparr>contacts := [carol, alice, bob]\<rparr>))
      = mset (contacts address_book)"
    by (simp add: address_book_def)
  from merge_aggregates_order_independent [OF h1 h2] perm
  have "merged_aggregates 1 [2, 3] address_book =
           Some (total_bookings alice + sum_list (map total_bookings [bob, carol]),
                 latest_present (last_booking_date alice # map last_booking_date [bob, carol]))"
    and "merged_aggregates 1 [2, 3] (address_book\<lparr>contacts := [carol, alice, bob]\<rparr>)
           = merged_aggregates 1 [2, 3] address_book"
    unfolding ds by blast+
  then show ?thesis
    using h1 h2 by (simp add: alice_def bob_def carol_def latest_present_def)
qed

section \<open>What a failed merge leaves behind\<close>








section \<open>The import loop\<close>

lemma import_loop_append:
  "import_loop (xs @ ys) org sk up cn sc d =
     (case import_loop xs org sk up cn sc d of
        (Inr cn1, sc1, d1) \<Rightarrow> import_loop ys org sk up cn1 sc1 d1
      | (Inl x, sc1, d1) \<Rightarrow> (Inl x, sc1, d1))"
proof (induction xs arbitrary: cn sc d)
  case Nil
  show ?case by simp
next
  case (Cons r rest)
  show ?case
    by (simp add: Cons.IH row_except_def row_num_def split: prod.splits sum.splits)
qed

lemma import_loop_raise:
  "import_row org r sk up cn sc d = (Inl x, sc1, d1) \<Longrightarrow>
     import_loop (r # rest) org sk up cn sc d = (Inl (NameError ''row_num''), sc1, d1)"
  by (simp add: row_except_def row_num_def)

text \<open>
  C1 (the code against the claim). The claim asks that a failure inside one row be
  recorded and counted and that the batch go on. In the code the handler of the inner
  \<open>try\<close> reads \<open>row_num\<close> first, which no statement binds: whatever a row raises, after
  any rows that went through, the handler raises \<open>NameError\<close> in its turn, the loop is
  left, and the call answers with the two-key dictionary of status \<open>error\<close>. The rows
  after the failing one are never processed; what the earlier rows wrote stays written.
\<close>

theorem row_failure_aborts_batch:
  assumes "organizer_id \<in> set (users d)"
    and "import_loop before organizer_id sk up no_counts sc d = (Inr cn, sc0, d0)"
    and "import_row organizer_id r sk up cn sc0 d0 = (Inl x, sc1, d1)"
  shows "process_contact_import organizer_id (before @ r # after) sk up sc d =
           ([''status'' \<mapsto> PyStr ''error'',
             ''message'' \<mapsto> PyStr (''Error importing contacts: ''
                @ str_exn (NameError ''row_num''))],
            sc1, d1)"
  using assms
  by (simp add: process_contact_import_def import_loop_append import_loop_raise
      del: import_loop.simps)

theorem row_failure_aborts_batch_witness:
  "fst (process_contact_import 7
          [[''email'' \<mapsto> Some ''d@x.com''], [''email'' \<mapsto> Some []], [''email'' \<mapsto> Some ''e@x.com'']]
          True False [] address_book) ''status'' = Some (PyStr ''error'')
   \<and> fst (process_contact_import 7
          [[''email'' \<mapsto> Some ''d@x.com''], [''email'' \<mapsto> Some []], [''email'' \<mapsto> Some ''e@x.com'']]
          True False [] address_book) ''skipped_count'' = None
   \<and> map email (contacts (snd (snd (process_contact_import 7
          [[''email'' \<mapsto> Some ''d@x.com''], [''email'' \<mapsto> Some []], [''email'' \<mapsto> Some ''e@x.com'']]
          True False [] address_book))))
       = [''a@x.com'', ''b@x.com'', ''c@x.com'', ''d@x.com'']"
proof -
  let ?d0 = "insert_contact
     (new_contact 7 ''d@x.com'' [''email'' \<mapsto> Some ''d@x.com''] address_book) address_book"
  let ?cn = "no_counts\<lparr>created_count := created_count no_counts + 1\<rparr>"
  have h1: "7 \<in> set (users address_book)" by (simp add: address_book_def)
  have e1: "lower (strip ''d@x.com'') = ''d@x.com''"
    by (simp add: lower_def strip_def is_space_def lower_char_def)
  have e2: "basic_email_ok ''d@x.com''" by (simp add: basic_email_ok_def)
  have e3: "find_existing 7 ''d@x.com'' address_book = None"
    by (simp add: find_existing_def address_book_def alice_def bob_def carol_def)
  have h2: "import_loop [[''email'' \<mapsto> Some ''d@x.com'']] 7 True False no_counts [] address_book
      = (Inr ?cn, [], ?d0)"
    by (simp add: import_row_def row_get_def Let_def e1 e2 e3)
  have h3: "import_row 7 [''email'' \<mapsto> Some []] True False ?cn [] ?d0
      = (Inl (NameError ''row_num''), [], ?d0)"
    by (simp add: import_row_def row_get_def Let_def lower_def strip_def row_num_def)
  have eq: "process_contact_import 7
          [[''email'' \<mapsto> Some ''d@x.com''], [''email'' \<mapsto> Some []], [''email'' \<mapsto> Some ''e@x.com'']]
          True False [] address_book
      = ([''status'' \<mapsto> PyStr ''error'',
          ''message'' \<mapsto> PyStr (''Error importing contacts: ''
             @ str_exn (NameError ''row_num''))], [], ?d0)"
    using row_failure_aborts_batch [OF h1 h2 h3, of "[[''email'' \<mapsto> Some ''e@x.com'']]"]
    by simp
  show ?thesis
    unfolding eq
    by (simp add: insert_contact_def new_contact_def Let_def address_book_def alice_def
        bob_def carol_def)
qed


section \<open>The status of a report\<close>





section \<open>A row that matches a contact when neither flag is set\<close>

lemma basic_email_ok_nonempty: "basic_email_ok e \<Longrightarrow> e \<noteq> []"
  by (auto simp: basic_email_ok_def)

text \<open>
  C9 (as amended). A row whose normalized email passes the check of line 36 and matches
  an existing contact, processed with \<open>skip_duplicates\<close> and \<open>update_existing\<close> both
  false, falls through: no counter changes, \<open>skipped_count\<close> included, nothing is
  written and no message is recorded. A batch of that one row reports all counts 0.
\<close>

theorem existing_row_without_flags_is_ignored:
  assumes "r ''email'' = Some (Some raw)"
    and "basic_email_ok (lower (strip raw))"
    and "find_existing org (lower (strip raw)) d = Some c"
  shows "import_row org r False False cn sc d = (Inr cn, sc, d)
       \<and> (org \<in> set (users d) \<longrightarrow>
            process_contact_import org [r] False False sc d = (import_result no_counts, sc, d))"
proof -
  have ne: "lower (strip raw) \<noteq> []"
    using assms(2) by (rule basic_email_ok_nonempty)
  have row: "import_row org r False False cn sc d = (Inr cn, sc, d)" for cn
    using assms ne by (simp add: import_row_def row_get_def Let_def)
  then show ?thesis
    by (simp add: process_contact_import_def)
qed

theorem existing_row_without_flags_is_ignored_witness:
  "find_existing 7 (lower (strip ''A@x.com '')) address_book = Some alice
   \<and> process_contact_import 7 [[''email'' \<mapsto> Some ''A@x.com '']] False False [] address_book
       = (import_result no_counts, [], address_book)
   \<and> import_result no_counts ''skipped_count'' = Some (PyInt 0)
   \<and> import_result no_counts ''errors'' = Some (PyList [])"
proof -
  have e1: "lower (strip ''A@x.com '') = ''a@x.com''"
    by code_simp
  have h1: "[''email'' \<mapsto> Some ''A@x.com ''] ''email'' = Some (Some ''A@x.com '')" by simp
  have h2: "basic_email_ok (lower (strip ''A@x.com ''))"
    by (simp add: e1 basic_email_ok_def)
  have h3: "find_existing 7 (lower (strip ''A@x.com '')) address_book = Some alice"
    by (simp add: e1 find_existing_def address_book_def alice_def bob_def carol_def)
  have h4: "7 \<in> set (users address_book)" by (simp add: address_book_def)
  from existing_row_without_flags_is_ignored
         [where r = "[''email'' \<mapsto> Some ''A@x.com '']" and raw = "''A@x.com ''" and org = 7
            and d = address_book and c = alice and cn = no_counts and sc = "[]",
          OF h1 h2 h3] h3 h4
  show ?thesis by (simp add: import_result_def no_counts_def Let_def)
qed

text \<open>
  C9 as stated fails: for a row matching Alice with both flags false, the report has
  \<open>skipped_count\<close> 0 and an empty list of errors.
\<close>

theorem existing_row_without_flags_counterexample:
  "find_existing 7 ''a@x.com'' address_book = Some alice
   \<and> fst (process_contact_import 7 [[''email'' \<mapsto> Some ''a@x.com'']] False False []
        address_book) ''skipped_count'' = Some (PyInt 0)
   \<and> fst (process_contact_import 7 [[''email'' \<mapsto> Some ''a@x.com'']] False False []
        address_book) ''errors'' = Some (PyList [])"
  by code_simp

section \<open>Updating an existing contact\<close>








section \<open>The emails that are stored\<close>




lemma save_contact_in: "q \<in> set (contacts (save_contact q d))"
  by (auto simp: save_contact_def)

lemma insert_contact_mem [simp]:
  "set (contacts (insert_contact q d)) = insert q (set (contacts d))"
  by (simp add: insert_contact_def)

lemma new_contact_email [simp]: "email (new_contact org e r d) = e"
  by (simp add: new_contact_def Let_def)



lemma get_or_create_facts:
  assumes "get_or_create b sc d = (Inr (c, created), sc1, d1)"
  shows "bookings d1 = bookings d \<and> organizer c = b_organizer b
       \<and> email c = invitee_email b \<and> c \<in> set (contacts d1)
       \<and> set (contacts d1) \<subseteq> insert c (set (contacts d))"
proof -
  let ?ms = "filter (\<lambda>c. organizer c = b_organizer b \<and> email c = invitee_email b) (contacts d)"
  obtain w sc2 where sw: "storage_write sc = (w, sc2)" by (cases "storage_write sc")
  consider "?ms = []" "w = None" "c = booking_contact b d"
      "d1 = insert_contact (booking_contact b d) d"
    | "?ms = [c]" "d1 = d"
    using assms sw
    by (cases w) (auto simp: get_or_create_def split: list.splits)
  then show ?thesis
  proof cases
    case 1
    then show ?thesis by (simp add: insert_contact_def booking_contact_def)
  next
    case 2
    then have "c \<in> set ?ms" by simp
    then have "organizer c = b_organizer b \<and> email c = invitee_email b \<and> c \<in> set (contacts d)"
      by simp
    with 2(2) show ?thesis by auto
  qed
qed

lemma booking_upsert_success:
  assumes "get_booking booking_id d = Inr b"
    and "fst (create_contact_from_booking f g booking_id sc d) ''status'' = Some (PyStr ''success'')"
  shows "\<exists>c created sc1 d1 sc3.
           get_or_create b sc d = (Inr (c, created), sc1, d1)
         \<and> snd (create_contact_from_booking f g booking_id sc d) =
             (sc3, insert_interaction
                (booking_interaction f g
                   (c\<lparr>total_bookings :=
                        int (length (confirmed_bookings (b_organizer b) (invitee_email b) d1)),
                      last_booking_date := Some (start_time b)\<rparr>) b
                   (save_contact
                      (c\<lparr>total_bookings :=
                           int (length (confirmed_bookings (b_organizer b) (invitee_email b) d1)),
                         last_booking_date := Some (start_time b)\<rparr>) d1))
                (save_contact
                   (c\<lparr>total_bookings :=
                        int (length (confirmed_bookings (b_organizer b) (invitee_email b) d1)),
                      last_booking_date := Some (start_time b)\<rparr>) d1))"
proof -
  obtain res sc1 d1 where goc: "get_or_create b sc d = (res, sc1, d1)"
    by (cases "get_or_create b sc d") auto
  obtain w1 sc2 where w1: "storage_write sc1 = (w1, sc2)" by (cases "storage_write sc1")
  obtain w2 sc3 where w2: "storage_write sc2 = (w2, sc3)" by (cases "storage_write sc2")
  show ?thesis
  proof (cases res)
    case (Inl x)
    with assms goc show ?thesis
      by (simp add: create_contact_from_booking_def booking_error_def)
  next
    case (Inr cc)
    obtain c created where cc: "cc = (c, created)" by (cases cc) auto
    from assms goc Inr cc w1 w2 have "w1 = None" and "w2 = None"
      by (cases w1; cases w2;
          simp add: create_contact_from_booking_def booking_error_def Let_def)+
    with assms goc Inr cc w1 w2 show ?thesis
      by (simp add: create_contact_from_booking_def Let_def)
  qed
qed



lemma insert_interaction_contacts [simp]:
  "contacts (insert_interaction i d) = contacts d"
  by (simp add: insert_interaction_def)






section \<open>The booking statistics of a contact\<close>

lemma latest_first_None: "latest_first bs = None \<longleftrightarrow> bs = []"
proof -
  have "sort_key (\<lambda>b. - start_time b) bs = [] \<longleftrightarrow> bs = []"
    using length_sort [of "\<lambda>b. - start_time b" bs] by (metis length_0_conv)
  then show ?thesis by (auto simp: latest_first_def split: list.splits)
qed

lemma latest_first_Some:
  assumes "latest_first bs = Some b"
  shows "start_time b = Max (start_time ` set bs)"
proof -
  let ?f = "\<lambda>b. - start_time b"
  from assms obtain rest where srt: "sort_key ?f bs = b # rest"
    by (auto simp: latest_first_def split: list.splits)
  have "sorted (map ?f (sort_key ?f bs))" by (rule sorted_sort_key)
  with srt have le: "\<forall>y \<in> set rest. ?f b \<le> ?f y" by simp
  have st: "set bs = insert b (set rest)"
    using set_sort [of ?f bs] srt by simp
  have "\<forall>y \<in> set bs. start_time y \<le> start_time b"
    using le st by auto
  moreover have "b \<in> set bs" using st by simp
  ultimately show ?thesis
    by (intro Max_eqI [symmetric]) auto
qed

lemma sync_one_stats:
  assumes "get_contact k d = Inr c"
    and "fst (update_single_contact_booking_stats k sc d) ''status'' = Some (PyStr ''success'')"
  shows "\<exists>c'. get_contact k (snd (snd (update_single_contact_booking_stats k sc d))) = Inr c'
           \<and> total_bookings c' = int (length (confirmed_bookings (organizer c) (email c) d))
           \<and> last_booking_date c'
               = (if confirmed_bookings (organizer c) (email c) d = [] then None
                  else Some (Max (start_time ` set (confirmed_bookings (organizer c) (email c) d))))"
proof -
  let ?bs = "confirmed_bookings (organizer c) (email c) d"
  let ?c1 = "c\<lparr>total_bookings := int (length ?bs),
               last_booking_date :=
                 (case latest_first ?bs of None \<Rightarrow> None
                  | Some last_booking \<Rightarrow> Some (start_time last_booking))\<rparr>"
  obtain w sc1 where sw: "storage_write sc = (w, sc1)" by (cases "storage_write sc")
  from assms sw have w: "w = None"
    by (cases w) (simp_all add: update_single_contact_booking_stats_def Let_def stats_error_def)
  with assms(1) sw have d': "snd (snd (update_single_contact_booking_stats k sc d))
      = save_contact ?c1 d"
    by (simp add: update_single_contact_booking_stats_def Let_def)
  have k: "cid ?c1 = k" using get_contact_Inr_mem(2) [OF assms(1)] by simp
  have g: "get_contact k (save_contact ?c1 d) = Inr ?c1"
    using assms(1) k by (rule get_contact_save)
  have lb: "last_booking_date ?c1 = (if ?bs = [] then None else Some (Max (start_time ` set ?bs)))"
  proof (cases "latest_first ?bs")
    case None
    then have "?bs = []" by (simp add: latest_first_None)
    then show ?thesis by (simp add: latest_first_def)
  next
    case (Some b)
    then have "?bs \<noteq> []" using latest_first_None [of ?bs] by auto
    with Some latest_first_Some [OF Some] show ?thesis by simp
  qed
  show ?thesis
    unfolding d' using g lb by (intro exI [of _ ?c1]) simp
qed

lemma confirmed_bookings_cong:
  "bookings d1 = bookings d \<Longrightarrow> confirmed_bookings org e d1 = confirmed_bookings org e d"
  by (simp add: confirmed_bookings_def)

lemma booking_upsert_stats:
  assumes "get_booking booking_id d = Inr b"
    and "fst (create_contact_from_booking f g booking_id sc d) ''status'' = Some (PyStr ''success'')"
  shows "\<exists>c \<in> set (contacts (snd (snd (create_contact_from_booking f g booking_id sc d)))).
           organizer c = b_organizer b \<and> email c = invitee_email b
         \<and> total_bookings c
             = int (length (confirmed_bookings (b_organizer b) (invitee_email b) d))
         \<and> last_booking_date c = Some (start_time b)"
proof -
  from booking_upsert_success [OF assms] obtain c created sc1 d1 sc3 where
    goc: "get_or_create b sc d = (Inr (c, created), sc1, d1)"
    and out: "snd (create_contact_from_booking f g booking_id sc d) =
             (sc3, insert_interaction
                (booking_interaction f g
                   (c\<lparr>total_bookings :=
                        int (length (confirmed_bookings (b_organizer b) (invitee_email b) d1)),
                      last_booking_date := Some (start_time b)\<rparr>) b
                   (save_contact
                      (c\<lparr>total_bookings :=
                           int (length (confirmed_bookings (b_organizer b) (invitee_email b) d1)),
                         last_booking_date := Some (start_time b)\<rparr>) d1))
                (save_contact
                   (c\<lparr>total_bookings :=
                        int (length (confirmed_bookings (b_organizer b) (invitee_email b) d1)),
                      last_booking_date := Some (start_time b)\<rparr>) d1))"
    by blast
  let ?c1 = "c\<lparr>total_bookings :=
                 int (length (confirmed_bookings (b_organizer b) (invitee_email b) d1)),
               last_booking_date := Some (start_time b)\<rparr>"
  note f = get_or_create_facts [OF goc]
  have cb: "confirmed_bookings (b_organizer b) (invitee_email b) d1
      = confirmed_bookings (b_organizer b) (invitee_email b) d"
    using f by (intro confirmed_bookings_cong) simp
  have "?c1 \<in> set (contacts (snd (snd (create_contact_from_booking f g booking_id sc d))))"
    unfolding out by (simp add: save_contact_in)
  moreover have "organizer ?c1 = b_organizer b \<and> email ?c1 = invitee_email b
      \<and> total_bookings ?c1 = int (length (confirmed_bookings (b_organizer b) (invitee_email b) d))
      \<and> last_booking_date ?c1 = Some (start_time b)"
    using f cb by simp
  ultimately show ?thesis by blast
qed

text \<open>
  C8 (as amended). When the booking-triggered task succeeds, the contact of the
  booking's organizer and invitee email has as \<open>total_bookings\<close> the number of confirmed
  bookings of that organizer and email, the count that
  \<open>update_single_contact_booking_stats\<close> sets, and as \<open>last_booking_date\<close> the start time
  of the triggering booking, whatever its status and whatever the other bookings are.
  \<open>update_single_contact_booking_stats\<close> sets \<open>last_booking_date\<close> to the greatest start
  time among the confirmed bookings, or to none when there is none.
\<close>

theorem booking_upsert_and_sync_stats:
  "(get_booking booking_id d = Inr b
      \<and> fst (create_contact_from_booking f g booking_id sc d) ''status'' = Some (PyStr ''success'')
      \<longrightarrow>
      (\<exists>c \<in> set (contacts (snd (snd (create_contact_from_booking f g booking_id sc d)))).
           organizer c = b_organizer b \<and> email c = invitee_email b
         \<and> total_bookings c
             = int (length (confirmed_bookings (b_organizer b) (invitee_email b) d))
         \<and> last_booking_date c = Some (start_time b)))
   \<and> (get_contact k d = Inr c0
      \<and> fst (update_single_contact_booking_stats k sc d) ''status'' = Some (PyStr ''success'')
      \<longrightarrow>
      (\<exists>c'. get_contact k (snd (snd (update_single_contact_booking_stats k sc d))) = Inr c'
           \<and> total_bookings c' = int (length (confirmed_bookings (organizer c0) (email c0) d))
           \<and> last_booking_date c'
               = (if confirmed_bookings (organizer c0) (email c0) d = [] then None
                  else Some (Max (start_time `
                         set (confirmed_bookings (organizer c0) (email c0) d))))))"
  using booking_upsert_stats [of booking_id d b f g sc] sync_one_stats [of k d c0 sc]
  by blast

theorem booking_upsert_and_sync_stats_witness:
  "get_booking 2 address_book = Inr (booked 2 ''a@x.com'' ''cancelled'' 100)
   \<and> length (confirmed_bookings 7 ''a@x.com'' address_book) = 1
   \<and> (\<exists>c \<in> set (contacts (snd (snd (create_contact_from_booking (\<lambda>t. []) (\<lambda>t. []) 2 []
            address_book)))).
         organizer c = 7 \<and> email c = ''a@x.com'' \<and> total_bookings c = 1
       \<and> last_booking_date c = Some 100)
   \<and> (\<exists>c'. get_contact 1 (snd (snd (update_single_contact_booking_stats 1 [] address_book)))
           = Inr c'
         \<and> total_bookings c' = 1 \<and> last_booking_date c' = Some 200)"
proof -
  let ?b = "booked 2 ''a@x.com'' ''cancelled'' 100"
  have h1: "get_booking 2 address_book = Inr ?b" by code_simp
  have h2: "fst (create_contact_from_booking (\<lambda>t. []) (\<lambda>t. []) 2 [] address_book) ''status''
      = Some (PyStr ''success'')" by code_simp
  have h3: "get_contact 1 address_book = Inr alice" by code_simp
  have h4: "fst (update_single_contact_booking_stats 1 [] address_book) ''status''
      = Some (PyStr ''success'')" by code_simp
  have cb: "confirmed_bookings 7 ''a@x.com'' address_book = [booked 1 ''a@x.com'' ''confirmed'' 200]"
    by code_simp
  have b: "b_organizer ?b = 7" "invitee_email ?b = ''a@x.com''" "start_time ?b = 100"
    by (simp_all add: booked_def)
  have a: "organizer alice = 7" "email alice = ''a@x.com''"
    by (simp_all add: alice_def)
  note T = booking_upsert_and_sync_stats [where booking_id = 2 and d = address_book and b = ?b
      and f = "\<lambda>t. []" and g = "\<lambda>t. []" and sc = "[]" and k = 1 and ?c0.0 = alice]
  have w1: "\<exists>c \<in> set (contacts (snd (snd (create_contact_from_booking (\<lambda>t. []) (\<lambda>t. []) 2 []
            address_book)))).
         organizer c = 7 \<and> email c = ''a@x.com'' \<and> total_bookings c = 1
       \<and> last_booking_date c = Some 100"
    using T h1 h2 by (simp add: b cb)
  have w2: "\<exists>c'. get_contact 1 (snd (snd (update_single_contact_booking_stats 1 [] address_book)))
           = Inr c'
         \<and> total_bookings c' = 1 \<and> last_booking_date c' = Some 200"
    using T h3 h4 by (simp add: a cb booked_def)
  from h1 cb w1 w2 show ?thesis by simp
qed

text \<open>
  C8 as stated fails: triggered by the cancelled booking 2, which starts at 100, the task
  sets Alice's \<open>last_booking_date\<close> to 100; her one confirmed booking starts at 200, which
  is what \<open>update_single_contact_booking_stats\<close> sets.
\<close>

theorem booking_upsert_last_date_counterexample:
  "get_booking 2 address_book = Inr (booked 2 ''a@x.com'' ''cancelled'' 100)
   \<and> confirmed_bookings 7 ''a@x.com'' address_book = [booked 1 ''a@x.com'' ''confirmed'' 200]
   \<and> map last_booking_date (contacts (snd (snd
        (create_contact_from_booking (\<lambda>t. []) (\<lambda>t. []) 2 [] address_book))))
       = [Some 100, Some 50, Some 80]
   \<and> map last_booking_date (contacts (snd (snd
        (update_single_contact_booking_stats 1 [] address_book))))
       = [Some 200, Some 50, Some 80]"
  by code_simp

end
